theory Spec2Isabelle
  imports Complex_Main
begin

section \<open>Values of the Python program\<close>

text \<open>
  The service (\<^verbatim>\<open>src/api/app.py\<close>) is a Flask application. Its handlers work on parsed
  JSON values, so the model starts with the values \<^verbatim>\<open>json.loads\<close> produces: \<^verbatim>\<open>None\<close>,
  \<^verbatim>\<open>bool\<close>, \<^verbatim>\<open>int\<close> (unbounded), \<^verbatim>\<open>float\<close>, \<^verbatim>\<open>str\<close>, \<^verbatim>\<open>list\<close> and \<^verbatim>\<open>dict\<close>.

  A Python \<^verbatim>\<open>str\<close> is a sequence of Unicode code points, so it is modelled as a list
  of natural numbers; \<open>ustr\<close> turns a literal of the theory into such a list, and a
  character outside ASCII is written as its code point.
  A float is a rational or one of the three special values Python's parser accepts
  (\<^verbatim>\<open>Infinity\<close>, \<^verbatim>\<open>-Infinity\<close>, \<^verbatim>\<open>NaN\<close>); the handlers only test a float for zero and
  compare it with an integer, and Python does both exactly.
  A \<^verbatim>\<open>dict\<close> is an association list, read with \<^const>\<open>map_of\<close>.
\<close>

type_synonym pystr = "nat list"

definition ustr :: "string \<Rightarrow> pystr" where
  "ustr s = map of_char s"

datatype pyfloat = Finite rat | PosInf | NegInf | NaN

datatype json =
    JNull
  | JBool bool
  | JInt int
  | JFloat pyfloat
  | JStr pystr
  | JArr "json list"
  | JObj "(pystr \<times> json) list"

datatype pytype = NoneType | BoolT | IntT | FloatT | StrT | ListT | DictT

fun type_of :: "json \<Rightarrow> pytype" where
  "type_of JNull = NoneType"
| "type_of (JBool _) = BoolT"
| "type_of (JInt _) = IntT"
| "type_of (JFloat _) = FloatT"
| "type_of (JStr _) = StrT"
| "type_of (JArr _) = ListT"
| "type_of (JObj _) = DictT"

text \<open>
  The exceptions a handler can meet. The first seven are raised by the interpreter on
  the operations the handlers apply to a value of the wrong type; \<open>Raised\<close> is an
  exception coming out of a library call (\<^verbatim>\<open>request.get_json\<close>, \<^verbatim>\<open>requests.post\<close>,
  \<^verbatim>\<open>requests.get\<close>, \<^verbatim>\<open>response.json\<close>), named by a tag.
\<close>

datatype exn =
    NotOrderable pytype pytype   \<comment> \<open>TypeError of \<^verbatim>\<open>a < b\<close>\<close>
  | NotIterable pytype           \<comment> \<open>TypeError of \<^verbatim>\<open>k in a\<close>\<close>
  | BadIndex pytype              \<comment> \<open>TypeError of \<^verbatim>\<open>a[k]\<close> with a string key on a str or list\<close>
  | NotSubscriptable pytype      \<comment> \<open>TypeError of \<^verbatim>\<open>a[k]\<close> on a value without items\<close>
  | KeyError pystr              \<comment> \<open>\<^verbatim>\<open>a[k]\<close> on a dict without the key\<close>
  | NoAttribute pytype pystr    \<comment> \<open>AttributeError of \<^verbatim>\<open>a.get\<close>\<close>
  | ExpectedString pytype        \<comment> \<open>TypeError of \<^verbatim>\<open>re.sub\<close> on a value that is not a str\<close>
  | Raised pystr

text \<open>Truth value testing (\<^verbatim>\<open>if x:\<close>, \<^verbatim>\<open>not x\<close>, \<^verbatim>\<open>x or y\<close>).\<close>

fun truthy :: "json \<Rightarrow> bool" where
  "truthy JNull = False"
| "truthy (JBool b) = b"
| "truthy (JInt i) = (i \<noteq> 0)"
| "truthy (JFloat f) = (f \<noteq> Finite 0)"
| "truthy (JStr s) = (s \<noteq> [])"
| "truthy (JArr xs) = (xs \<noteq> [])"
| "truthy (JObj kvs) = (kvs \<noteq> [])"

definition py_or :: "json \<Rightarrow> json \<Rightarrow> json" where
  "py_or a b = (if truthy a then a else b)"

text \<open>\<^verbatim>\<open>d.get(k, default)\<close> on a dict, and \<^verbatim>\<open>x.get(k, default)\<close> on any value.\<close>

definition dict_get :: "(pystr \<times> json) list \<Rightarrow> pystr \<Rightarrow> json \<Rightarrow> json" where
  "dict_get kvs k d = (case map_of kvs k of None \<Rightarrow> d | Some v \<Rightarrow> v)"

fun py_get :: "json \<Rightarrow> pystr \<Rightarrow> json \<Rightarrow> exn + json" where
  "py_get (JObj kvs) k d = Inr (dict_get kvs k d)"
| "py_get x k d = Inl (NoAttribute (type_of x) (ustr ''get''))"

section \<open>Auxiliary functions\<close>

text \<open>
  \<^verbatim>\<open>
  def clean_document(document):
      if document:
          return re.sub(r'\D', '', document)
      return "00000000191"
  \<close>
  \<^verbatim>\<open>\D\<close> matches every character that is not a Unicode decimal digit (general
  category Nd). Which code points those are is a table of the interpreter's Unicode
  database, so the function takes it as the predicate \<open>dec\<close>. The argument is whatever
  \<^verbatim>\<open>customer.get('document')\<close> returned, so it can be any JSON value: \<^verbatim>\<open>re.sub\<close>
  raises on a true value that is not a string.
\<close>

fun clean_document :: "(nat \<Rightarrow> bool) \<Rightarrow> json \<Rightarrow> exn + pystr" where
  "clean_document dec (JStr s) =
     (if s \<noteq> [] then Inr (filter dec s) else Inr (ustr ''00000000191''))"
| "clean_document dec x =
     (if truthy x then Inl (ExpectedString (type_of x)) else Inr (ustr ''00000000191''))"

text \<open>\<^verbatim>\<open>k in x\<close> and \<^verbatim>\<open>x[k]\<close> for a string \<open>k\<close>, and \<^verbatim>\<open>x < n\<close> for an integer \<open>n\<close>.\<close>

fun is_substring :: "pystr \<Rightarrow> pystr \<Rightarrow> bool" where
  "is_substring k [] = (k = [])"
| "is_substring k (c # cs) = (take (length k) (c # cs) = k \<or> is_substring k cs)"

fun py_in :: "pystr \<Rightarrow> json \<Rightarrow> exn + bool" where
  "py_in k (JObj kvs) = Inr (k \<in> set (map fst kvs))"
| "py_in k (JStr s) = Inr (is_substring k s)"
| "py_in k (JArr xs) = Inr (JStr k \<in> set xs)"
| "py_in k x = Inl (NotIterable (type_of x))"

fun py_getitem :: "json \<Rightarrow> pystr \<Rightarrow> exn + json" where
  "py_getitem (JObj kvs) k = (case map_of kvs k of None \<Rightarrow> Inl (KeyError k) | Some v \<Rightarrow> Inr v)"
| "py_getitem (JStr s) k = Inl (BadIndex StrT)"
| "py_getitem (JArr xs) k = Inl (BadIndex ListT)"
| "py_getitem x k = Inl (NotSubscriptable (type_of x))"

fun py_lt_int :: "json \<Rightarrow> int \<Rightarrow> exn + bool" where
  "py_lt_int (JInt i) n = Inr (i < n)"
| "py_lt_int (JBool b) n = Inr ((if b then 1 else 0) < n)"
| "py_lt_int (JFloat (Finite q)) n = Inr (q < of_int n)"
| "py_lt_int (JFloat PosInf) n = Inr False"
| "py_lt_int (JFloat NegInf) n = Inr True"
| "py_lt_int (JFloat NaN) n = Inr False"
| "py_lt_int x n = Inl (NotOrderable (type_of x) IntT)"

text \<open>
  \<^verbatim>\<open>str(n)\<close> for an integer, as the f-strings of the handlers use it: the decimal
  digits, whose code points start at 48.
\<close>

fun str_nat :: "nat \<Rightarrow> pystr" where
  "str_nat n = (if n < 10 then [48 + n]
                else str_nat (n div 10) @ [48 + n mod 10])"

declare str_nat.simps [simp del]

definition str_int :: "int \<Rightarrow> pystr" where
  "str_int i = (if i < 0 then ustr ''-'' @ str_nat (nat (- i)) else str_nat (nat i))"

section \<open>Configuration\<close>

text \<open>
  The module computes its configuration once, when it is loaded: \<^verbatim>\<open>basic_auth\<close> is the
  base64 text of the secret key followed by a colon, or \<^verbatim>\<open>None\<close> when the key is not
  set; \<^verbatim>\<open>GHOSTPAY_COMPANY_ID\<close> is read from the environment. The handlers only read
  them, so they are fields of the environment a handler runs in, with what else a
  handler takes from outside: the clock (\<^verbatim>\<open>int(time.time())\<close>), the text of an
  exception (\<^verbatim>\<open>str(e)\<close>), the interpreter's table of decimal digits and the
  processor, which answers an outbound call with a response or with an exception.
\<close>

record http_call =
  call_method :: pystr
  url :: pystr
  json_body :: "json option"
  headers :: "(pystr \<times> pystr) list"
  timeout :: nat

record http_response =
  status_code :: int
  body_text :: pystr              \<comment> \<open>\<^verbatim>\<open>response.text\<close>\<close>
  json_result :: "exn + json"      \<comment> \<open>what \<^verbatim>\<open>response.json()\<close> returns or raises\<close>

record env =
  basic_auth :: "pystr option"
  GHOSTPAY_COMPANY_ID :: "pystr option"
  now :: int
  exn_text :: "exn \<Rightarrow> pystr"
  decimal_digit :: "nat \<Rightarrow> bool"
  upstream :: "http_call \<Rightarrow> exn + http_response"

definition GHOSTPAY_URL :: pystr where
  "GHOSTPAY_URL = ustr ''https://api.ghostspaysv2.com/functions/v1/transactions''"

definition PRODUCT_NAME :: pystr where
  "PRODUCT_NAME = ustr ''Mentoria Venda Hoje - Acesso Vital'' @ [0xED] @ ustr ''cio''"

definition PRODUCT_PRICE :: int where
  "PRODUCT_PRICE = 890"

definition COMPANY_EMAIL :: pystr where
  "COMPANY_EMAIL = ustr ''suporte.vendahoje@gmail.com''"

text \<open>\<^verbatim>\<open>not basic_auth\<close>: the token is \<^verbatim>\<open>None\<close> (or empty).\<close>

definition test_mode :: "env \<Rightarrow> bool" where
  "test_mode e = (case basic_auth e of None \<Rightarrow> True | Some s \<Rightarrow> s = [])"

definition create_headers :: "env \<Rightarrow> (pystr \<times> pystr) list" where
  "create_headers e =
     [(ustr ''accept'', ustr ''application/json''),
      (ustr ''content-type'', ustr ''application/json''),
      (ustr ''authorization'', ustr ''Basic '' @ (case basic_auth e of None \<Rightarrow> ustr ''None'' | Some s \<Rightarrow> s))]
     @ (case GHOSTPAY_COMPANY_ID e of
          None \<Rightarrow> []
        | Some c \<Rightarrow> if c \<noteq> [] then [(ustr ''Company-ID'', c)] else [])"

definition create_test_qr_code :: pystr where
  "create_test_qr_code = ustr ''00020101021226920014br.gov.bcb.pix2560api.ghostpay.io/qrcode/example5204000053039865802BR5913VENDAS+HOJE6009SAO+PAULO62070503***6304E2CA''"

section \<open>Requests, responses and the control flow of a handler\<close>

text \<open>
  A handler reads \<^verbatim>\<open>request.method\<close> and, in \<^verbatim>\<open>create_payment\<close>, calls
  \<^verbatim>\<open>request.get_json()\<close>, which returns the parsed body or raises. It returns a body
  (\<^verbatim>\<open>jsonify(...)\<close> or a plain string) and a status, 200 when none is given.
\<close>

record request =
  request_method :: pystr
  get_json :: "exn + json"

datatype body = Text pystr | Json json

record response =
  status :: int
  body :: body

definition jsonify :: "(pystr \<times> json) list \<Rightarrow> int \<Rightarrow> response" where
  "jsonify kvs code = \<lparr>status = code, body = Json (JObj kvs)\<rparr>"

text \<open>
  Inside the \<^verbatim>\<open>try\<close> block a statement raises, returns a response, or goes on to the
  next statement with a value.
\<close>

datatype 'a step = Raise exn | Return response | Continue 'a

definition and_then :: "'a step \<Rightarrow> ('a \<Rightarrow> 'b step) \<Rightarrow> 'b step" where
  "and_then m f = (case m of Raise e \<Rightarrow> Raise e | Return r \<Rightarrow> Return r | Continue x \<Rightarrow> f x)"

definition step_of :: "exn + 'a \<Rightarrow> 'a step" where
  "step_of m = (case m of Inl e \<Rightarrow> Raise e | Inr x \<Rightarrow> Continue x)"

section \<open>POST /create-payment\<close>

text \<open>
  The handler \<^verbatim>\<open>create_payment\<close> in the order of its statements. Lines 118 to 134:
  without the token the handler answers with a synthetic transaction at once, before
  it reads the request.
\<close>

definition test_payment :: "env \<Rightarrow> response" where
  "test_payment e =
     jsonify
       [(ustr ''success'', JBool True),
        (ustr ''test_mode'', JBool True),
        (ustr ''message'', JStr (ustr ''Modo de teste - Configure as chaves no Render'')),
        (ustr ''transaction'', JObj
           [(ustr ''id'', JStr (ustr ''test_'' @ str_int (now e))),
            (ustr ''status'', JStr (ustr ''pending'')),
            (ustr ''amount'', JInt PRODUCT_PRICE)]),
        (ustr ''pix'', JObj
           [(ustr ''qr_code'', JStr create_test_qr_code),
            (ustr ''code'', JStr create_test_qr_code),
            (ustr ''copy_paste'', JStr create_test_qr_code)])]
       200"

definition error_response :: "pystr \<Rightarrow> int \<Rightarrow> response" where
  "error_response msg code = jsonify [(ustr ''error'', JBool True), (ustr ''message'', JStr msg)] code"

text \<open>
  Lines 136 to 152: the body must be a true value holding \<^verbatim>\<open>'customer'\<close>; the amount
  is the body's or the product's price.
\<close>

definition read_request :: "request \<Rightarrow> (json \<times> json \<times> json) step" where
  "read_request req =
     and_then (step_of (get_json req)) (\<lambda>data.
       if \<not> truthy data then
         Return (error_response (ustr ''Dados n'' @ [0xE3] @ ustr ''o recebidos'') 400)
       else
         and_then (step_of (py_in (ustr ''customer'') data)) (\<lambda>has_customer.
           if has_customer then
             and_then (step_of (py_getitem data (ustr ''customer''))) (\<lambda>customer.
             and_then (step_of (py_get data (ustr ''amount'') (JInt PRODUCT_PRICE))) (\<lambda>amount.
               Continue (data, customer, amount)))
           else
             Return (error_response (ustr ''Estrutura de dados inv'' @ [0xE1] @ ustr ''lida'') 400)))"

text \<open>
  Lines 155 to 165. \<^verbatim>\<open>not a or not b\<close> evaluates \<open>b\<close> only when \<open>a\<close> is true; both
  are \<^verbatim>\<open>customer.get\<close>, which raises when the customer is not a dict.
\<close>

definition validate :: "json \<Rightarrow> json \<Rightarrow> unit step" where
  "validate customer amount =
     and_then (step_of (py_get customer (ustr ''name'') JNull)) (\<lambda>name.
     and_then (if truthy name then step_of (py_get customer (ustr ''email'') JNull) else Continue JNull) (\<lambda>email.
       if \<not> truthy name \<or> \<not> truthy email then
         Return (error_response
           (ustr ''Nome e email s'' @ [0xE3] @ ustr ''o obrigat'' @ [0xF3] @ ustr ''rios'') 400)
       else
         and_then (step_of (py_lt_int amount 100)) (\<lambda>too_small.
           if too_small then
             Return (error_response
               (ustr ''Valor m'' @ [0xED] @ ustr ''nimo '' @ [0xE9] @ ustr '' R$ 1,00'') 400)
           else Continue ())))"

text \<open>Lines 168 to 194: the payload for the processor.\<close>

definition build_payload :: "env \<Rightarrow> json \<Rightarrow> json \<Rightarrow> json \<Rightarrow> json step" where
  "build_payload e data customer amount =
     and_then (step_of (py_get customer (ustr ''name'') (JStr (ustr ''Cliente Venda Hoje'')))) (\<lambda>name.
     and_then (step_of (py_get customer (ustr ''email'') (JStr COMPANY_EMAIL))) (\<lambda>email.
     and_then (step_of (py_get customer (ustr ''phone'') (JStr (ustr ''11999999999'')))) (\<lambda>phone.
     and_then (step_of (py_get customer (ustr ''document'') JNull)) (\<lambda>document.
     and_then (step_of (clean_document (decimal_digit e) document)) (\<lambda>number.
     and_then (step_of (py_get data (ustr ''description'') (JStr PRODUCT_NAME))) (\<lambda>description.
       Continue (JObj
         [(ustr ''paymentMethod'', JStr (ustr ''PIX'')),
          (ustr ''customer'', JObj
             [(ustr ''name'', name),
              (ustr ''email'', email),
              (ustr ''phone'', phone),
              (ustr ''document'', JObj [(ustr ''number'', JStr number), (ustr ''type'', JStr (ustr ''CPF''))])]),
          (ustr ''items'', JArr [JObj
             [(ustr ''title'', JStr PRODUCT_NAME),
              (ustr ''unitPrice'', amount),
              (ustr ''quantity'', JInt 1),
              (ustr ''externalRef'', JStr (ustr ''venda-hoje-'' @ str_int (now e)))]]),
          (ustr ''amount'', amount),
          (ustr ''description'', description),
          (ustr ''metadata'', JObj
             [(ustr ''product'', JStr (ustr ''mentoria_venda_hoje'')),
              (ustr ''access_type'', JStr (ustr ''vitalicio'')),
              (ustr ''source'', JStr (ustr ''landing_page''))]),
          (ustr ''pix'', JObj []),
          (ustr ''expiresInDays'', JInt 1)])))))))"

text \<open>
  Lines 204 to 235: the processor's response becomes the service's. In
  \<^verbatim>\<open>a.get('qrcode') or a.get('qrCode') or a.get('text')\<close> the three lookups are on the
  same value, so the later ones cannot raise once the first has returned.
\<close>

definition normalize_response :: "http_response \<Rightarrow> response step" where
  "normalize_response r =
     (if status_code r \<in> set [200, 201] then
        and_then (step_of (json_result r)) (\<lambda>response_data.
        and_then (step_of (py_get response_data (ustr ''pix'') (JObj []))) (\<lambda>pix_data.
        and_then (step_of (py_get pix_data (ustr ''qrcode'') JNull)) (\<lambda>q1.
        and_then (step_of (py_get pix_data (ustr ''qrCode'') JNull)) (\<lambda>q2.
        and_then (step_of (py_get pix_data (ustr ''text'') JNull)) (\<lambda>q3.
          let qr_code = py_or (py_or q1 q2) q3 in
          if truthy qr_code then
            and_then (step_of (py_get response_data (ustr ''id'') JNull)) (\<lambda>rid.
            and_then (step_of (py_get response_data (ustr ''status'') JNull)) (\<lambda>rstatus.
            and_then (step_of (py_get response_data (ustr ''amount'') JNull)) (\<lambda>ramount.
              Return (jsonify
                [(ustr ''success'', JBool True),
                 (ustr ''transaction'', JObj
                    [(ustr ''id'', rid), (ustr ''status'', rstatus), (ustr ''amount'', ramount)]),
                 (ustr ''pix'', JObj
                    [(ustr ''qr_code'', qr_code), (ustr ''code'', qr_code), (ustr ''copy_paste'', qr_code)])]
                200))))
          else
            Return (error_response (ustr ''QR Code n'' @ [0xE3] @ ustr ''o recebido'') 500))))))
      else
        Return (jsonify
          [(ustr ''error'', JBool True),
           (ustr ''message'', JStr (ustr ''Erro na API GhostPay: '' @ str_int (status_code r))),
           (ustr ''details'', JStr (if body_text r \<noteq> [] then take 200 (body_text r)
                               else (ustr ''Sem resposta'')))]
          (status_code r)))"

text \<open>
  The \<^verbatim>\<open>try\<close> block: the outbound calls made, in order, and how the block ends. The
  call is recorded whether the processor answers or \<^verbatim>\<open>requests.post\<close> raises.
\<close>

definition create_payment_call :: "env \<Rightarrow> json \<Rightarrow> http_call" where
  "create_payment_call e payload =
     \<lparr>call_method = ustr ''POST'', url = GHOSTPAY_URL, json_body = Some payload,
      headers = create_headers e, timeout = 30\<rparr>"

definition create_payment_try :: "env \<Rightarrow> request \<Rightarrow> http_call list \<times> response step" where
  "create_payment_try e req =
     (if test_mode e then ([], Return (test_payment e))
      else
        case and_then (read_request req) (\<lambda>(data, customer, amount).
             and_then (validate customer amount) (\<lambda>_.
               build_payload e data customer amount))
        of
          Raise x \<Rightarrow> ([], Raise x)
        | Return r \<Rightarrow> ([], Return r)
        | Continue payload \<Rightarrow>
            ([create_payment_call e payload],
             and_then (step_of (upstream e (create_payment_call e payload))) normalize_response))"

text \<open>
  The handler: the pre-flight method first, then the \<^verbatim>\<open>try\<close> block under
  \<^verbatim>\<open>except Exception\<close> (lines 237 to 241).
\<close>

definition create_payment :: "env \<Rightarrow> request \<Rightarrow> http_call list \<times> response" where
  "create_payment e req =
     (if request_method req = ustr ''OPTIONS'' then ([], \<lparr>status = 200, body = Text []\<rparr>)
      else
        case create_payment_try e req of
          (calls, Raise x) \<Rightarrow> (calls, error_response (ustr ''Erro interno: '' @ exn_text e x) 500)
        | (calls, Return r) \<Rightarrow> (calls, r)
        | (calls, Continue r) \<Rightarrow> (calls, r))"

section \<open>GET /check-payment/<transaction_id>\<close>

definition check_payment_call :: "env \<Rightarrow> pystr \<Rightarrow> http_call" where
  "check_payment_call e transaction_id =
     \<lparr>call_method = ustr ''GET'', url = GHOSTPAY_URL @ ustr ''/'' @ transaction_id, json_body = None,
      headers = create_headers e, timeout = 30\<rparr>"

definition check_payment_try :: "env \<Rightarrow> pystr \<Rightarrow> http_call list \<times> response step" where
  "check_payment_try e transaction_id =
     (if test_mode e then
        ([], Return (jsonify
           [(ustr ''success'', JBool True),
            (ustr ''test_mode'', JBool True),
            (ustr ''status'', JStr (ustr ''paid'')),
            (ustr ''message'', JStr (ustr ''Modo de teste - Pagamento simulado''))]
           200))
      else
        ([check_payment_call e transaction_id],
         and_then (step_of (upstream e (check_payment_call e transaction_id))) (\<lambda>r.
           if status_code r = 200 then
             and_then (step_of (json_result r)) (\<lambda>data.
             and_then (step_of (py_get data (ustr ''status'') JNull)) (\<lambda>dstatus.
             and_then (step_of (py_get data (ustr ''paidAt'') JNull)) (\<lambda>paid_at.
               Return (jsonify
                 [(ustr ''success'', JBool True),
                  (ustr ''status'', dstatus),
                  (ustr ''paid_at'', paid_at),
                  (ustr ''transaction'', data)]
                 200))))
           else
             Return (error_response
               (ustr ''Transa'' @ [0xE7, 0xE3] @ ustr ''o n'' @ [0xE3] @ ustr ''o encontrada'') 404))))"

definition check_payment :: "env \<Rightarrow> request \<Rightarrow> pystr \<Rightarrow> http_call list \<times> response" where
  "check_payment e req transaction_id =
     (if request_method req = ustr ''OPTIONS'' then ([], \<lparr>status = 200, body = Text []\<rparr>)
      else
        case check_payment_try e transaction_id of
          (calls, Raise x) \<Rightarrow> (calls, error_response (ustr ''Erro: '' @ exn_text e x) 500)
        | (calls, Return r) \<Rightarrow> (calls, r)
        | (calls, Continue r) \<Rightarrow> (calls, r))"

section \<open>Reading a response\<close>

text \<open>A field of a JSON body, by its path of keys.\<close>

fun json_at :: "pystr list \<Rightarrow> json \<Rightarrow> json option" where
  "json_at [] j = Some j"
| "json_at (k # ks) (JObj kvs) = (case map_of kvs k of None \<Rightarrow> None | Some v \<Rightarrow> json_at ks v)"
| "json_at (k # ks) j = None"

definition field :: "pystr list \<Rightarrow> response \<Rightarrow> json option" where
  "field ks r = (case body r of Json j \<Rightarrow> json_at ks j | Text t \<Rightarrow> None)"

section \<open>Sample environments and requests\<close>

text \<open>
  Concrete inputs for the examples below: the decimal digits of Unicode 14.0 (the
  zero of each run of ten, as CPython 3.11 has them), a process started without the
  secret key and one started with the key \<^verbatim>\<open>sk\<close> (whose token is \<^verbatim>\<open>c2s6\<close>), a
  processor that gives the same answer to every call, and the request of the
  specification's example.
\<close>

definition unicode_decimal :: "nat \<Rightarrow> bool" where
  "unicode_decimal c =
     list_ex (\<lambda>zero. zero \<le> c \<and> c < zero + 10)
       [48, 1632, 1776, 1984, 2406, 2534, 2662, 2790, 2918, 3046, 3174, 3302, 3430, 3558,
        3664, 3792, 3872, 4160, 4240, 6112, 6160, 6470, 6608, 6784, 6800, 6992, 7088, 7232,
        7248, 42528, 43216, 43264, 43472, 43504, 43600, 44016, 65296, 66720, 68912, 69734,
        69872, 69942, 70096, 70384, 70736, 70864, 71248, 71360, 71472, 71904, 72016, 72784,
        73040, 73120, 92768, 92864, 93008, 120782, 120792, 120802, 120812, 120822, 123200,
        123632, 125264, 130032]"

definition offline_env :: env where
  "offline_env =
     \<lparr>basic_auth = None, GHOSTPAY_COMPANY_ID = None, now = 1700000000,
      exn_text = (\<lambda>x. ustr ''error''), decimal_digit = unicode_decimal,
      upstream = (\<lambda>c. Inl (Raised (ustr ''no network'')))\<rparr>"

definition live_env :: "(http_call \<Rightarrow> exn + http_response) \<Rightarrow> env" where
  "live_env processor =
     \<lparr>basic_auth = Some (ustr ''c2s6''), GHOSTPAY_COMPANY_ID = None, now = 1700000000,
      exn_text = (\<lambda>x. ustr ''error''), decimal_digit = unicode_decimal,
      upstream = processor\<rparr>"

definition answer :: "http_response \<Rightarrow> http_call \<Rightarrow> exn + http_response" where
  "answer r c = Inr r"

definition post_json :: "json \<Rightarrow> request" where
  "post_json j = \<lparr>request_method = ustr ''POST'', get_json = Inr j\<rparr>"

text \<open>A GET carries no body; the lookup handler never asks for one.\<close>

definition get_request :: request where
  "get_request = \<lparr>request_method = ustr ''GET'', get_json = Inl (Raised (ustr ''no body''))\<rparr>"

definition ana :: json where
  "ana = JObj [(ustr ''name'', JStr (ustr ''Ana'')), (ustr ''email'', JStr (ustr ''a@x.com''))]"

definition order :: "json \<Rightarrow> json" where
  "order amount = JObj [(ustr ''customer'', ana), (ustr ''amount'', amount)]"

text \<open>Answers of the processor: to a created transaction, and to a lookup.\<close>

definition both_keys :: http_response where
  "both_keys =
     \<lparr>status_code = 201, body_text = [],
      json_result = Inr (JObj
        [(ustr ''id'', JStr (ustr ''tx_1'')), (ustr ''status'', JStr (ustr ''waiting_payment'')), (ustr ''amount'', JInt 890),
         (ustr ''pix'', JObj [(ustr ''qrcode'', JStr (ustr ''AAA'')), (ustr ''qrCode'', JStr (ustr ''BBB''))])])\<rparr>"

definition silent_failure :: http_response where
  "silent_failure =
     \<lparr>status_code = 502, body_text = [], json_result = Inl (Raised (ustr ''JSONDecodeError''))\<rparr>"

definition refusal :: http_response where
  "refusal =
     \<lparr>status_code = 422, body_text = ustr ''invalid document'',
      json_result = Inl (Raised (ustr ''JSONDecodeError''))\<rparr>"

definition found :: http_response where
  "found =
     \<lparr>status_code = 200, body_text = [],
      json_result = Inr (JObj
        [(ustr ''id'', JStr (ustr ''abc123'')), (ustr ''status'', JStr (ustr ''paid'')),
         (ustr ''paidAt'', JStr (ustr ''2024-01-01T00:00:00Z''))])\<rparr>"

definition unavailable :: http_response where
  "unavailable =
     \<lparr>status_code = 503, body_text = ustr ''Service Unavailable'',
      json_result = Inl (Raised (ustr ''JSONDecodeError''))\<rparr>"

definition array_body :: http_response where
  "array_body =
     \<lparr>status_code = 200, body_text = ustr ''[1, 2]'',
      json_result = Inr (JArr [JInt 1, JInt 2])\<rparr>"

section \<open>Basic facts\<close>

lemmas sample_defs =
  offline_env_def live_env_def answer_def post_json_def ana_def order_def
  get_request_def both_keys_def silent_failure_def refusal_def found_def unavailable_def
  array_body_def

lemmas handler_defs =
  create_payment_def create_payment_try_def read_request_def validate_def build_payload_def
  normalize_response_def create_payment_call_def test_mode_def dict_get_def py_or_def
  error_response_def jsonify_def field_def Let_def

lemma ustr_eq_iff [simp]: "ustr a = ustr b \<longleftrightarrow> a = b"
  by (simp add: ustr_def inj_map_eq_map inj_of_char)

lemma ustr_eq_Nil [simp]: "ustr a = [] \<longleftrightarrow> a = []" "[] = ustr a \<longleftrightarrow> a = []"
  by (auto simp: ustr_def)

lemma ustr_append [simp]: "ustr a @ ustr b = ustr (a @ b)"
  by (simp add: ustr_def)

lemma and_then_simps [simp]:
  "and_then (Raise x) f = Raise x"
  "and_then (Return r) f = Return r"
  "and_then (Continue a) f = f a"
  by (simp_all add: and_then_def)

lemma step_of_simps [simp]:
  "step_of (Inl x) = Raise x"
  "step_of (Inr a) = Continue a"
  by (simp_all add: step_of_def)

lemma field_jsonify [simp]: "field ks (jsonify kvs code) = json_at ks (JObj kvs)"
  by (simp add: field_def jsonify_def)

lemma status_jsonify [simp]: "status (jsonify kvs code) = code"
  by (simp add: jsonify_def)

lemma field_error_response [simp]:
  "field [ustr ''error''] (error_response msg code) = Some (JBool True)"
  "status (error_response msg code) = code"
  by (simp_all add: error_response_def)

lemma filter_all_id: "\<forall>c\<in>set s. dec c \<Longrightarrow> filter dec s = s"
  by (induction s) auto

subsection \<open>The paths through \<open>create_payment\<close>\<close>

lemma create_payment_test:
  "test_mode e \<Longrightarrow> request_method req \<noteq> (ustr ''OPTIONS'') \<Longrightarrow> create_payment e req = ([], test_payment e)"
  by (simp add: create_payment_def create_payment_try_def)

lemma read_request_customer:
  assumes "get_json req = Inr (JObj kvs)" "map_of kvs (ustr ''customer'') = Some customer"
  shows "read_request req = Continue (JObj kvs, customer, dict_get kvs (ustr ''amount'') (JInt PRODUCT_PRICE))"
proof -
  from assms(2) have "(ustr ''customer'', customer) \<in> set kvs" by (rule map_of_SomeD)
  then have "kvs \<noteq> []" "(ustr ''customer'') \<in> fst ` set kvs" by force+
  with assms show ?thesis by (simp add: read_request_def)
qed

lemma read_request_no_customer:
  assumes "get_json req = Inr (JObj kvs)" "map_of kvs (ustr ''customer'') = None"
  shows "\<exists>msg. read_request req = Return (error_response msg 400)"
proof -
  from assms(2) have "(ustr ''customer'') \<notin> fst ` set kvs" by (simp add: map_of_eq_None_iff)
  with assms(1) show ?thesis by (auto simp: read_request_def)
qed

lemma validate_dict:
  "validate (JObj c) amount =
     (if \<not> truthy (dict_get c (ustr ''name'') JNull) \<or> \<not> truthy (dict_get c (ustr ''email'') JNull) then
        Return (error_response
          (ustr ''Nome e email s'' @ [0xE3] @ ustr ''o obrigat'' @ [0xF3] @ ustr ''rios'') 400)
      else
        and_then (step_of (py_lt_int amount 100)) (\<lambda>too_small.
          if too_small then
            Return (error_response
              (ustr ''Valor m'' @ [0xED] @ ustr ''nimo '' @ [0xE9] @ ustr '' R$ 1,00'') 400)
          else Continue ()))"
  by (simp add: validate_def)

lemma create_payment_returned:
  assumes "\<not> test_mode e" "request_method req \<noteq> (ustr ''OPTIONS'')"
    "and_then (read_request req) (\<lambda>(data, customer, amount).
       and_then (validate customer amount) (\<lambda>_. build_payload e data customer amount)) = Return r"
  shows "create_payment e req = ([], r)"
  using assms by (simp add: create_payment_def create_payment_try_def)

lemma create_payment_raised:
  assumes "\<not> test_mode e" "request_method req \<noteq> (ustr ''OPTIONS'')"
    "and_then (read_request req) (\<lambda>(data, customer, amount).
       and_then (validate customer amount) (\<lambda>_. build_payload e data customer amount)) = Raise x"
  shows "create_payment e req = ([], error_response (ustr ''Erro interno: '' @ exn_text e x) 500)"
  using assms by (simp add: create_payment_def create_payment_try_def)

lemma create_payment_forwarded:
  assumes "fst (create_payment e req) = c # cs"
  shows "cs = [] \<and> snd (create_payment e req) =
    (case and_then (step_of (upstream e c)) normalize_response of
       Raise x \<Rightarrow> error_response (ustr ''Erro interno: '' @ exn_text e x) 500
     | Return r \<Rightarrow> r
     | Continue r \<Rightarrow> r)"
  using assms
  by (auto simp: create_payment_def create_payment_try_def split: if_splits step.splits)

lemma forwarded_amount:
  assumes "fst (create_payment e req) = c # cs"
  shows "\<exists>payload amount. json_body c = Some payload \<and>
           json_at [ustr ''amount''] payload = Some amount \<and> py_lt_int amount 100 = Inr False"
proof -
  from assms have live: "\<not> test_mode e" "request_method req \<noteq> (ustr ''OPTIONS'')"
    by (auto simp: create_payment_def create_payment_try_def split: if_splits)
  from assms live obtain payload where c: "c = create_payment_call e payload"
    and p: "and_then (read_request req) (\<lambda>(data, customer, amount).
       and_then (validate customer amount) (\<lambda>_. build_payload e data customer amount))
       = Continue payload"
    by (auto simp: create_payment_def create_payment_try_def split: if_splits step.splits)
  from p obtain data customer amount where
    v: "validate customer amount = Continue ()"
    and b: "build_payload e data customer amount = Continue payload"
    by (auto simp: and_then_def split: step.splits)
  from v have lt: "py_lt_int amount 100 = Inr False"
    by (auto simp: validate_def and_then_def step_of_def split: step.splits sum.splits if_splits)
  from b have "json_at [ustr ''amount''] payload = Some amount"
    by (auto simp: build_payload_def and_then_def step_of_def split: step.splits sum.splits)
  with lt c show ?thesis by (auto simp: create_payment_call_def)
qed

subsection \<open>The processor's answer\<close>

lemma normalize_error:
  assumes "status_code r \<noteq> 200" "status_code r \<noteq> 201"
  shows "normalize_response r = Return (jsonify
          [(ustr ''error'', JBool True),
           (ustr ''message'', JStr (ustr ''Erro na API GhostPay: '' @ str_int (status_code r))),
           (ustr ''details'', JStr (if body_text r = [] then ustr ''Sem resposta''
                               else take 200 (body_text r)))]
          (status_code r))"
  using assms by (simp add: normalize_response_def)

lemma normalize_qr:
  assumes "status_code r = 200 \<or> status_code r = 201"
    and "json_result r = Inr (JObj rd)"
    and "dict_get rd (ustr ''pix'') (JObj []) = JObj pix"
    and "find truthy [dict_get pix (ustr ''qrcode'') JNull, dict_get pix (ustr ''qrCode'') JNull,
                      dict_get pix (ustr ''text'') JNull] = Some q"
  shows "normalize_response r = Return (jsonify
           [(ustr ''success'', JBool True),
            (ustr ''transaction'', JObj
               [(ustr ''id'', dict_get rd (ustr ''id'') JNull),
                (ustr ''status'', dict_get rd (ustr ''status'') JNull),
                (ustr ''amount'', dict_get rd (ustr ''amount'') JNull)]),
            (ustr ''pix'', JObj [(ustr ''qr_code'', q), (ustr ''code'', q), (ustr ''copy_paste'', q)])]
           200)"
proof -
  from assms(4) have "py_or (py_or (dict_get pix (ustr ''qrcode'') JNull)
      (dict_get pix (ustr ''qrCode'') JNull)) (dict_get pix (ustr ''text'') JNull) = q \<and> truthy q"
    by (auto simp: py_or_def split: if_splits)
  with assms(1,2,3) show ?thesis
    by (auto simp: normalize_response_def Let_def)
qed

section \<open>Test mode\<close>

text \<open>
  C1, as the specification states it: in test mode the response carries the amount the
  client asked for. The handler returns before it reads the request, so a request for
  500 is answered with the product's price.
\<close>

theorem test_mode_amount_counterexample:
  "test_mode offline_env \<and>
   field [ustr ''transaction'', ustr ''amount'']
     (snd (create_payment offline_env (post_json (order (JInt 500))))) \<noteq> Some (JInt 500)"
  by (simp add: create_payment_test test_payment_def PRODUCT_PRICE_def
      test_mode_def offline_env_def post_json_def)

text \<open>
  C1, amended: in test mode the amount of the response is the product's price, 890,
  whatever the request holds; a request for 890 is answered with 890.
\<close>

theorem test_mode_amount_is_product_price:
  assumes "test_mode e" and "request_method req = ustr ''POST''"
  shows "field [ustr ''transaction'', ustr ''amount''] (snd (create_payment e req)) = Some (JInt 890)"
  using assms by (simp add: create_payment_test test_payment_def PRODUCT_PRICE_def)

theorem test_mode_amount_is_product_price_witness:
  "test_mode offline_env \<and> request_method (post_json (order (JInt 890))) = ustr ''POST'' \<and>
   field [ustr ''transaction'', ustr ''amount'']
     (snd (create_payment offline_env (post_json (order (JInt 890))))) = Some (JInt 890)"
proof -
  have h1: "test_mode offline_env"
    by (simp add: test_mode_def offline_env_def)
  have h2: "request_method (post_json (order (JInt 890))) = ustr ''POST''"
    by (simp add: post_json_def)
  from test_mode_amount_is_product_price [OF h1 h2] h1 h2 show ?thesis by simp
qed

text \<open>
  C4: without the token every POST to \<^verbatim>\<open>/create-payment\<close> is answered 200 with
  \<^verbatim>\<open>success\<close> and \<^verbatim>\<open>test_mode\<close> true and a transaction id made of \<^verbatim>\<open>test_\<close> and the
  clock's seconds, and the handler makes no outbound call.
\<close>

theorem test_mode_synthetic_success:
  assumes "test_mode e" and "request_method req = ustr ''POST''"
  shows "fst (create_payment e req) = [] \<and>
         status (snd (create_payment e req)) = 200 \<and>
         field [ustr ''success''] (snd (create_payment e req)) = Some (JBool True) \<and>
         field [ustr ''test_mode''] (snd (create_payment e req)) = Some (JBool True) \<and>
         field [ustr ''transaction'', ustr ''id''] (snd (create_payment e req)) =
           Some (JStr (ustr ''test_'' @ str_int (now e)))"
  using assms by (simp add: create_payment_test test_payment_def)

theorem test_mode_synthetic_success_witness:
  "test_mode offline_env \<and> request_method (post_json (order (JInt 890))) = ustr ''POST'' \<and>
   fst (create_payment offline_env (post_json (order (JInt 890)))) = [] \<and>
   field [ustr ''success''] (snd (create_payment offline_env (post_json (order (JInt 890))))) =
     Some (JBool True) \<and>
   field [ustr ''test_mode''] (snd (create_payment offline_env (post_json (order (JInt 890))))) =
     Some (JBool True) \<and>
   field [ustr ''transaction'', ustr ''id''] (snd (create_payment offline_env (post_json (order (JInt 890))))) =
     Some (JStr (ustr ''test_1700000000''))"
proof -
  have h1: "test_mode offline_env"
    by (simp add: test_mode_def offline_env_def)
  have h2: "request_method (post_json (order (JInt 890))) = ustr ''POST''"
    by (simp add: post_json_def)
  have t: "str_int (now offline_env) = ustr ''1700000000''"
    by (simp add: offline_env_def str_int_def str_nat.simps ustr_def)
  from test_mode_synthetic_success [OF h1 h2] h1 h2 t show ?thesis by simp
qed

section \<open>Document cleaning\<close>

text \<open>
  C2: \<open>clean_document\<close> never returns a blank result. The function tests its argument,
  not what is left of it: for the document \<^verbatim>\<open>abc\<close>, which is not empty and holds no
  decimal digit, it returns the empty string, and the payload forwarded to the
  processor carries an empty document number.
\<close>

theorem clean_document_blank_result:
  "clean_document unicode_decimal (JStr (ustr ''abc'')) = Inr [] \<and>
   map (\<lambda>call. case json_body call of
          None \<Rightarrow> None
        | Some payload \<Rightarrow> json_at [ustr ''customer'', ustr ''document'', ustr ''number''] payload)
     (fst (create_payment (live_env (answer both_keys))
        (post_json (JObj
          [(ustr ''customer'', JObj
              [(ustr ''name'', JStr (ustr ''Ana'')), (ustr ''email'', JStr (ustr ''a@x.com'')),
               (ustr ''document'', JStr (ustr ''abc''))])]))))
   = [Some (JStr [])]"
  by (simp add: sample_defs handler_defs ustr_def unicode_decimal_def PRODUCT_PRICE_def)

text \<open>
  C7: a string of decimal digits that is not empty is returned as it is, and an empty
  or absent document gives the placeholder.
\<close>

theorem clean_document_idempotent:
  "(s \<noteq> [] \<and> (\<forall>c\<in>set s. dec c) \<longrightarrow> clean_document dec (JStr s) = Inr s) \<and>
   clean_document dec (JStr []) = Inr (ustr ''00000000191'') \<and>
   clean_document dec JNull = Inr (ustr ''00000000191'')"
  by (simp add: filter_all_id)

theorem clean_document_idempotent_witness:
  "ustr ''12345678909'' \<noteq> [] \<and> list_all unicode_decimal (ustr ''12345678909'') \<and>
   clean_document unicode_decimal (JStr (ustr ''12345678909'')) = Inr (ustr ''12345678909'') \<and>
   list_all unicode_decimal [1633, 1634, 1635] \<and>
   clean_document unicode_decimal (JStr [1633, 1634, 1635]) = Inr [1633, 1634, 1635]"
proof -
  have h: "ustr ''12345678909'' \<noteq> [] \<and> (\<forall>c\<in>set (ustr ''12345678909''). unicode_decimal c)"
    by (simp add: ustr_def unicode_decimal_def)
  have l: "list_all unicode_decimal (ustr ''12345678909'')"
    by (simp add: ustr_def unicode_decimal_def)
  have h': "[1633, 1634, 1635] \<noteq> [] \<and> (\<forall>c\<in>set [1633, 1634, 1635]. unicode_decimal c)"
    by (simp add: unicode_decimal_def)
  have l': "list_all unicode_decimal [1633, 1634, 1635]"
    by (simp add: unicode_decimal_def)
  from clean_document_idempotent [of "ustr ''12345678909''" unicode_decimal]
    clean_document_idempotent [of "[1633, 1634, 1635]" unicode_decimal] h l h' l'
  show ?thesis by blast
qed

section \<open>Validation\<close>

text \<open>
  C3, as the specification states it for any mode: a request without a name or an email
  is answered 400. Without the token the request is not read, and the answer is 200.
\<close>

theorem missing_name_test_mode_counterexample:
  "test_mode offline_env \<and>
   status (snd (create_payment offline_env (post_json (JObj [(ustr ''customer'', JObj [])])))) = 200 \<and>
   field [ustr ''error''] (snd (create_payment offline_env (post_json (JObj [(ustr ''customer'', JObj [])]))))
     = None"
  by (simp add: create_payment_test test_payment_def test_mode_def offline_env_def post_json_def)

text \<open>
  C3, amended: with the token configured, a POST whose body is a JSON object without
  \<^verbatim>\<open>customer\<close>, or with a \<^verbatim>\<open>customer\<close> object whose name or email is missing or empty,
  is answered 400 with the error flag set, and no outbound call is made.
\<close>

theorem missing_name_or_email_rejected:
  assumes "\<not> test_mode e" and "request_method req = ustr ''POST''"
    and "get_json req = Inr (JObj kvs)"
    and "map_of kvs (ustr ''customer'') = None \<or>
         (\<exists>c. map_of kvs (ustr ''customer'') = Some (JObj c) \<and>
              (\<not> truthy (dict_get c (ustr ''name'') JNull) \<or> \<not> truthy (dict_get c (ustr ''email'') JNull)))"
  shows "fst (create_payment e req) = [] \<and>
         status (snd (create_payment e req)) = 400 \<and>
         field [ustr ''error''] (snd (create_payment e req)) = Some (JBool True)"
proof -
  from assms(2) have post: "request_method req \<noteq> (ustr ''OPTIONS'')" by simp
  from assms(4) have "\<exists>msg. and_then (read_request req) (\<lambda>(data, customer, amount).
       and_then (validate customer amount) (\<lambda>_. build_payload e data customer amount))
       = Return (error_response msg 400)"
  proof
    assume "map_of kvs (ustr ''customer'') = None"
    from read_request_no_customer [OF assms(3) this] show ?thesis by auto
  next
    assume "\<exists>c. map_of kvs (ustr ''customer'') = Some (JObj c) \<and>
              (\<not> truthy (dict_get c (ustr ''name'') JNull) \<or> \<not> truthy (dict_get c (ustr ''email'') JNull))"
    then obtain c where c: "map_of kvs (ustr ''customer'') = Some (JObj c)"
      and bad: "\<not> truthy (dict_get c (ustr ''name'') JNull) \<or> \<not> truthy (dict_get c (ustr ''email'') JNull)"
      by blast
    from bad show ?thesis
      by (simp only: read_request_customer [OF assms(3) c] and_then_simps prod.case validate_dict)
         auto
  qed
  then obtain msg where "and_then (read_request req) (\<lambda>(data, customer, amount).
       and_then (validate customer amount) (\<lambda>_. build_payload e data customer amount))
       = Return (error_response msg 400)" ..
  from create_payment_returned [OF assms(1) post this] show ?thesis by simp
qed

theorem missing_name_or_email_rejected_witness:
  "\<not> test_mode (live_env (answer both_keys)) \<and>
   status (snd (create_payment (live_env (answer both_keys))
     (post_json (JObj [(ustr ''customer'', JObj [(ustr ''name'', JStr (ustr ''Ana''))])])))) = 400 \<and>
   field [ustr ''error''] (snd (create_payment (live_env (answer both_keys))
     (post_json (JObj [(ustr ''customer'', JObj [(ustr ''name'', JStr (ustr ''Ana''))])])))) = Some (JBool True) \<and>
   status (snd (create_payment (live_env (answer both_keys))
     (post_json (JObj [(ustr ''amount'', JInt 890)])))) = 400"
proof -
  let ?e = "live_env (answer both_keys)"
  let ?kvs = "[(ustr ''customer'', JObj [(ustr ''name'', JStr (ustr ''Ana''))])]"
  let ?kvs' = "[(ustr ''amount'', JInt 890)]"
  have h1: "\<not> test_mode ?e"
    by (simp add: test_mode_def live_env_def)
  have h2: "request_method (post_json (JObj ?kvs)) = ustr ''POST''" "request_method (post_json (JObj ?kvs')) = ustr ''POST''"
    by (simp_all add: post_json_def)
  have h3: "get_json (post_json (JObj ?kvs)) = Inr (JObj ?kvs)"
    "get_json (post_json (JObj ?kvs')) = Inr (JObj ?kvs')"
    by (simp_all add: post_json_def)
  have h4: "map_of ?kvs (ustr ''customer'') = None \<or>
         (\<exists>c. map_of ?kvs (ustr ''customer'') = Some (JObj c) \<and>
              (\<not> truthy (dict_get c (ustr ''name'') JNull) \<or> \<not> truthy (dict_get c (ustr ''email'') JNull)))"
    by (simp add: dict_get_def)
  have h4': "map_of ?kvs' (ustr ''customer'') = None \<or>
         (\<exists>c. map_of ?kvs' (ustr ''customer'') = Some (JObj c) \<and>
              (\<not> truthy (dict_get c (ustr ''name'') JNull) \<or> \<not> truthy (dict_get c (ustr ''email'') JNull)))"
    by simp
  from missing_name_or_email_rejected [OF h1 h2(1) h3(1) h4]
    missing_name_or_email_rejected [OF h1 h2(2) h3(2) h4'] h1
  show ?thesis by simp
qed

text \<open>
  C5, as the specification states it for any mode: an amount below 100 is answered 400.
  Without the token the request is not read, and the answer is 200.
\<close>

theorem small_amount_test_mode_counterexample:
  "test_mode offline_env \<and>
   py_lt_int (JInt 50) 100 = Inr True \<and>
   status (snd (create_payment offline_env (post_json (order (JInt 50))))) = 200"
  by (simp add: create_payment_test test_payment_def test_mode_def offline_env_def post_json_def)

text \<open>
  C5, amended: with the token configured, a POST whose body is a JSON object with a
  \<^verbatim>\<open>customer\<close> object and an amount below 100 is answered 400 with the error flag set,
  whatever the customer holds, and no outbound call is made; and every outbound call
  the handler makes carries an amount that the check did not find below 100.
\<close>

theorem small_amount_rejected:
  "(\<not> test_mode e \<and> request_method req = ustr ''POST'' \<and> get_json req = Inr (JObj kvs) \<and>
    map_of kvs (ustr ''customer'') = Some (JObj c) \<and>
    py_lt_int (dict_get kvs (ustr ''amount'') (JInt PRODUCT_PRICE)) 100 = Inr True
    \<longrightarrow> fst (create_payment e req) = [] \<and>
        status (snd (create_payment e req)) = 400 \<and>
        field [ustr ''error''] (snd (create_payment e req)) = Some (JBool True)) \<and>
   (fst (create_payment e' req') = call # calls
    \<longrightarrow> (\<exists>payload amount. json_body call = Some payload \<and>
          json_at [ustr ''amount''] payload = Some amount \<and> py_lt_int amount 100 = Inr False))"
proof (intro conjI impI)
  assume h: "\<not> test_mode e \<and> request_method req = ustr ''POST'' \<and> get_json req = Inr (JObj kvs) \<and>
    map_of kvs (ustr ''customer'') = Some (JObj c) \<and>
    py_lt_int (dict_get kvs (ustr ''amount'') (JInt PRODUCT_PRICE)) 100 = Inr True"
  then have live: "\<not> test_mode e" and post: "request_method req \<noteq> (ustr ''OPTIONS'')"
    and body: "get_json req = Inr (JObj kvs)" and cust: "map_of kvs (ustr ''customer'') = Some (JObj c)"
    and small: "py_lt_int (dict_get kvs (ustr ''amount'') (JInt PRODUCT_PRICE)) 100 = Inr True"
    by simp_all
  have "\<exists>msg. and_then (read_request req) (\<lambda>(data, customer, amount).
       and_then (validate customer amount) (\<lambda>_. build_payload e data customer amount))
       = Return (error_response msg 400)"
    using small
    by (simp only: read_request_customer [OF body cust] and_then_simps prod.case validate_dict)
       auto
  then obtain msg where "and_then (read_request req) (\<lambda>(data, customer, amount).
       and_then (validate customer amount) (\<lambda>_. build_payload e data customer amount))
       = Return (error_response msg 400)" ..
  from create_payment_returned [OF live post this]
  show "fst (create_payment e req) = []"
    and "status (snd (create_payment e req)) = 400"
    and "field [ustr ''error''] (snd (create_payment e req)) = Some (JBool True)"
    by simp_all
next
  assume "fst (create_payment e' req') = call # calls"
  then show "\<exists>payload amount. json_body call = Some payload \<and>
          json_at [ustr ''amount''] payload = Some amount \<and> py_lt_int amount 100 = Inr False"
    by (rule forwarded_amount)
qed

theorem small_amount_rejected_witness:
  "\<not> test_mode (live_env (answer both_keys)) \<and>
   py_lt_int (dict_get [(ustr ''customer'', ana), (ustr ''amount'', JInt 50)] (ustr ''amount'') (JInt PRODUCT_PRICE)) 100
     = Inr True \<and>
   fst (create_payment (live_env (answer both_keys)) (post_json (order (JInt 50)))) = [] \<and>
   status (snd (create_payment (live_env (answer both_keys)) (post_json (order (JInt 50))))) = 400 \<and>
   length (fst (create_payment (live_env (answer both_keys)) (post_json (order (JInt 890))))) = 1"
proof -
  let ?e = "live_env (answer both_keys)"
  let ?kvs = "[(ustr ''customer'', ana), (ustr ''amount'', JInt 50)]"
  let ?c = "[(ustr ''name'', JStr (ustr ''Ana'')), (ustr ''email'', JStr (ustr ''a@x.com''))]"
  let ?call = "hd (fst (create_payment ?e (post_json (order (JInt 890)))))"
  have h1: "\<not> test_mode ?e"
    by (simp add: test_mode_def live_env_def)
  have h2: "request_method (post_json (order (JInt 50))) = ustr ''POST''"
    by (simp add: post_json_def)
  have h3: "get_json (post_json (order (JInt 50))) = Inr (JObj ?kvs)"
    by (simp add: post_json_def order_def)
  have h4: "map_of ?kvs (ustr ''customer'') = Some (JObj ?c)"
    by (simp add: ana_def)
  have h5: "py_lt_int (dict_get ?kvs (ustr ''amount'') (JInt PRODUCT_PRICE)) 100 = Inr True"
    by (simp add: dict_get_def)
  have h6: "fst (create_payment ?e (post_json (order (JInt 890)))) = ?call # []"
    by (simp add: sample_defs handler_defs)
  have h7: "length (fst (create_payment ?e (post_json (order (JInt 890))))) = 1"
    by (simp add: sample_defs handler_defs)
  from small_amount_rejected [of ?e "post_json (order (JInt 50))" ?kvs ?c
      ?e "post_json (order (JInt 890))" ?call "[]"] h1 h2 h3 h4 h5 h6 h7
  show ?thesis by simp
qed

text \<open>
  C10: with the token configured and a customer with a name and an email, an amount
  that cannot be compared with 100 (a JSON string, for one) makes the comparison raise;
  the handler answers 500 with the error flag and a message made of \<^verbatim>\<open>Erro interno: \<close>
  and the text of the exception, not 400, and makes no outbound call.
\<close>

theorem unorderable_amount_internal_error:
  assumes "\<not> test_mode e" and "request_method req = ustr ''POST''"
    and "get_json req = Inr (JObj kvs)"
    and "map_of kvs (ustr ''customer'') = Some (JObj c)"
    and "truthy (dict_get c (ustr ''name'') JNull)"
    and "truthy (dict_get c (ustr ''email'') JNull)"
    and "py_lt_int (dict_get kvs (ustr ''amount'') (JInt PRODUCT_PRICE)) 100 = Inl x"
  shows "create_payment e req =
           ([], \<lparr>status = 500, body = Json (JObj
                  [(ustr ''error'', JBool True),
                   (ustr ''message'', JStr (ustr ''Erro interno: '' @ exn_text e x))])\<rparr>) \<and>
         status (snd (create_payment e req)) \<noteq> 400 \<and>
         py_lt_int (JStr s) 100 = Inl (NotOrderable StrT IntT)"
proof -
  from assms(2) have post: "request_method req \<noteq> ustr ''OPTIONS''" by simp
  have "and_then (read_request req) (\<lambda>(data, customer, amount).
       and_then (validate customer amount) (\<lambda>_. build_payload e data customer amount))
       = Raise x"
    using assms(5,6,7)
    by (simp only: read_request_customer [OF assms(3,4)] and_then_simps prod.case validate_dict)
       simp
  from create_payment_raised [OF assms(1) post this] show ?thesis
    by (simp add: error_response_def jsonify_def)
qed

theorem unorderable_amount_internal_error_witness:
  "\<not> test_mode (live_env (answer both_keys)) \<and>
   py_lt_int (JStr (ustr ''890'')) 100 = Inl (NotOrderable StrT IntT) \<and>
   create_payment (live_env (answer both_keys)) (post_json (order (JStr (ustr ''890'')))) =
     ([], \<lparr>status = 500, body = Json (JObj
            [(ustr ''error'', JBool True),
             (ustr ''message'', JStr (ustr ''Erro interno: error''))])\<rparr>)"
proof -
  let ?e = "live_env (answer both_keys)"
  let ?kvs = "[(ustr ''customer'', ana), (ustr ''amount'', JStr (ustr ''890''))]"
  let ?c = "[(ustr ''name'', JStr (ustr ''Ana'')), (ustr ''email'', JStr (ustr ''a@x.com''))]"
  have h1: "\<not> test_mode ?e"
    by (simp add: test_mode_def live_env_def)
  have h2: "request_method (post_json (order (JStr (ustr ''890'')))) = ustr ''POST''"
    by (simp add: post_json_def)
  have h3: "get_json (post_json (order (JStr (ustr ''890'')))) = Inr (JObj ?kvs)"
    by (simp add: post_json_def order_def)
  have h4: "map_of ?kvs (ustr ''customer'') = Some (JObj ?c)"
    by (simp add: ana_def)
  have h5: "truthy (dict_get ?c (ustr ''name'') JNull)"
    and h6: "truthy (dict_get ?c (ustr ''email'') JNull)"
    by (simp_all add: dict_get_def)
  have h7: "py_lt_int (dict_get ?kvs (ustr ''amount'') (JInt PRODUCT_PRICE)) 100
              = Inl (NotOrderable StrT IntT)"
    by (simp add: dict_get_def)
  have t: "exn_text ?e (NotOrderable StrT IntT) = ustr ''error''"
    by (simp add: live_env_def)
  from unorderable_amount_internal_error [OF h1 h2 h3 h4 h5 h6 h7] h1 t
  show ?thesis by simp
qed

section \<open>The processor's response\<close>

text \<open>
  C6: when the processor answers 200 or 201 with an object whose \<^verbatim>\<open>pix\<close> is an object,
  the QR code is the first true value among \<^verbatim>\<open>qrcode\<close>, \<^verbatim>\<open>qrCode\<close> and \<^verbatim>\<open>text\<close>, in
  that order; it is returned under \<^verbatim>\<open>qr_code\<close>, \<^verbatim>\<open>code\<close> and \<^verbatim>\<open>copy_paste\<close>; and a
  true value under \<^verbatim>\<open>qrcode\<close> wins over whatever \<^verbatim>\<open>qrCode\<close> holds.
\<close>

theorem qr_code_priority:
  assumes "fst (create_payment e req) = [c]" and "upstream e c = Inr r"
    and "status_code r = 200 \<or> status_code r = 201"
    and "json_result r = Inr (JObj rd)"
    and "dict_get rd (ustr ''pix'') (JObj []) = JObj pix"
    and "find truthy [dict_get pix (ustr ''qrcode'') JNull, dict_get pix (ustr ''qrCode'') JNull,
                      dict_get pix (ustr ''text'') JNull] = Some q"
  shows "status (snd (create_payment e req)) = 200 \<and>
         field [ustr ''success''] (snd (create_payment e req)) = Some (JBool True) \<and>
         field [ustr ''pix'', ustr ''qr_code''] (snd (create_payment e req)) = Some q \<and>
         field [ustr ''pix'', ustr ''code''] (snd (create_payment e req)) = Some q \<and>
         field [ustr ''pix'', ustr ''copy_paste''] (snd (create_payment e req)) = Some q \<and>
         (truthy (dict_get pix (ustr ''qrcode'') JNull) \<longrightarrow> q = dict_get pix (ustr ''qrcode'') JNull)"
proof -
  from create_payment_forwarded [OF assms(1)] assms(2) normalize_qr [OF assms(3-6)]
  have "snd (create_payment e req) = jsonify
           [(ustr ''success'', JBool True),
            (ustr ''transaction'', JObj
               [(ustr ''id'', dict_get rd (ustr ''id'') JNull), (ustr ''status'', dict_get rd (ustr ''status'') JNull),
                (ustr ''amount'', dict_get rd (ustr ''amount'') JNull)]),
            (ustr ''pix'', JObj [(ustr ''qr_code'', q), (ustr ''code'', q), (ustr ''copy_paste'', q)])]
           200"
    by simp
  moreover from assms(6)
  have "truthy (dict_get pix (ustr ''qrcode'') JNull) \<longrightarrow> q = dict_get pix (ustr ''qrcode'') JNull"
    by (auto split: if_splits)
  ultimately show ?thesis by simp
qed

theorem qr_code_priority_witness:
  "length (fst (create_payment (live_env (answer both_keys)) (post_json (order (JInt 890))))) = 1 \<and>
   truthy (JStr (ustr ''AAA'')) \<and>
   field [ustr ''pix'', ustr ''qr_code'']
     (snd (create_payment (live_env (answer both_keys)) (post_json (order (JInt 890))))) =
     Some (JStr (ustr ''AAA'')) \<and>
   field [ustr ''pix'', ustr ''code'']
     (snd (create_payment (live_env (answer both_keys)) (post_json (order (JInt 890))))) =
     Some (JStr (ustr ''AAA'')) \<and>
   field [ustr ''pix'', ustr ''copy_paste'']
     (snd (create_payment (live_env (answer both_keys)) (post_json (order (JInt 890))))) =
     Some (JStr (ustr ''AAA''))"
proof -
  let ?e = "live_env (answer both_keys)" and ?req = "post_json (order (JInt 890))"
  let ?c = "hd (fst (create_payment ?e ?req))"
  let ?pix = "[(ustr ''qrcode'', JStr (ustr ''AAA'')), (ustr ''qrCode'', JStr (ustr ''BBB''))]"
  let ?rd = "[(ustr ''id'', JStr (ustr ''tx_1'')), (ustr ''status'', JStr (ustr ''waiting_payment'')),
              (ustr ''amount'', JInt 890), (ustr ''pix'', JObj ?pix)]"
  have h0: "length (fst (create_payment ?e ?req)) = 1"
    by (simp add: sample_defs handler_defs)
  have h1: "fst (create_payment ?e ?req) = [?c]"
    by (simp add: sample_defs handler_defs)
  have h2: "upstream ?e ?c = Inr both_keys"
    by (simp add: live_env_def answer_def)
  have h3: "status_code both_keys = 200 \<or> status_code both_keys = 201"
    by (simp add: both_keys_def)
  have h4: "json_result both_keys = Inr (JObj ?rd)"
    by (simp add: both_keys_def)
  have h5: "dict_get ?rd (ustr ''pix'') (JObj []) = JObj ?pix"
    by (simp add: dict_get_def)
  have h6: "find truthy [dict_get ?pix (ustr ''qrcode'') JNull, dict_get ?pix (ustr ''qrCode'') JNull,
                         dict_get ?pix (ustr ''text'') JNull] = Some (JStr (ustr ''AAA''))"
    by (simp add: dict_get_def)
  from qr_code_priority [OF h1 h2 h3 h4 h5 h6] h0 show ?thesis by simp
qed

text \<open>
  C8, as the specification states it: on a status other than 200 and 201 the details
  hold at most the first 200 characters of the processor's raw body. When that body is
  empty the details are the fixed text \<^verbatim>\<open>Sem resposta\<close>, which is no part of it.
\<close>

theorem upstream_error_details_counterexample:
  "body_text silent_failure = [] \<and>
   status (snd (create_payment (live_env (answer silent_failure)) (post_json (order (JInt 890)))))
     = 502 \<and>
   field [ustr ''details'']
     (snd (create_payment (live_env (answer silent_failure)) (post_json (order (JInt 890)))))
     = Some (JStr (ustr ''Sem resposta''))"
  by (simp add: sample_defs handler_defs)

text \<open>
  C8, amended: when the processor answers a created transaction with a status other
  than 200 and 201, the service answers with that status and an error body whose
  details are the first 200 characters of the raw body, or \<^verbatim>\<open>Sem resposta\<close> when the raw
  body is empty; on 200 and 201 the parsed JSON body is used: the transaction's id,
  status and amount and the QR code of the response are read from it.
\<close>

theorem upstream_error_surfaced:
  assumes "fst (create_payment e req) = [c]" and "upstream e c = Inr r"
  shows "(status_code r \<noteq> 200 \<and> status_code r \<noteq> 201 \<longrightarrow>
            snd (create_payment e req) =
              \<lparr>status = status_code r, body = Json (JObj
                 [(ustr ''error'', JBool True),
                  (ustr ''message'',
                     JStr (ustr ''Erro na API GhostPay: '' @ str_int (status_code r))),
                  (ustr ''details'',
                     JStr (if body_text r = [] then ustr ''Sem resposta''
                           else take 200 (body_text r)))])\<rparr>) \<and>
         ((status_code r = 200 \<or> status_code r = 201) \<and>
          json_result r = Inr (JObj rd) \<and>
          dict_get rd (ustr ''pix'') (JObj []) = JObj pix \<and>
          find truthy [dict_get pix (ustr ''qrcode'') JNull, dict_get pix (ustr ''qrCode'') JNull,
                       dict_get pix (ustr ''text'') JNull] = Some q \<longrightarrow>
            snd (create_payment e req) =
              \<lparr>status = 200, body = Json (JObj
                 [(ustr ''success'', JBool True),
                  (ustr ''transaction'', JObj
                     [(ustr ''id'', dict_get rd (ustr ''id'') JNull),
                      (ustr ''status'', dict_get rd (ustr ''status'') JNull),
                      (ustr ''amount'', dict_get rd (ustr ''amount'') JNull)]),
                  (ustr ''pix'', JObj
                     [(ustr ''qr_code'', q), (ustr ''code'', q), (ustr ''copy_paste'', q)])])\<rparr>)"
proof (intro conjI impI)
  assume "status_code r \<noteq> 200 \<and> status_code r \<noteq> 201"
  then have "normalize_response r = Return (jsonify
          [(ustr ''error'', JBool True),
           (ustr ''message'', JStr (ustr ''Erro na API GhostPay: '' @ str_int (status_code r))),
           (ustr ''details'', JStr (if body_text r = [] then ustr ''Sem resposta''
                               else take 200 (body_text r)))]
          (status_code r))"
    by (simp add: normalize_error)
  with create_payment_forwarded [OF assms(1)] assms(2)
  show "snd (create_payment e req) =
          \<lparr>status = status_code r, body = Json (JObj
             [(ustr ''error'', JBool True),
              (ustr ''message'',
                 JStr (ustr ''Erro na API GhostPay: '' @ str_int (status_code r))),
              (ustr ''details'',
                 JStr (if body_text r = [] then ustr ''Sem resposta''
                       else take 200 (body_text r)))])\<rparr>"
    by (simp add: jsonify_def)
next
  assume h: "(status_code r = 200 \<or> status_code r = 201) \<and>
          json_result r = Inr (JObj rd) \<and>
          dict_get rd (ustr ''pix'') (JObj []) = JObj pix \<and>
          find truthy [dict_get pix (ustr ''qrcode'') JNull, dict_get pix (ustr ''qrCode'') JNull,
                       dict_get pix (ustr ''text'') JNull] = Some q"
  then have h1: "status_code r = 200 \<or> status_code r = 201"
    and h2: "json_result r = Inr (JObj rd)"
    and h3: "dict_get rd (ustr ''pix'') (JObj []) = JObj pix"
    and h4: "find truthy [dict_get pix (ustr ''qrcode'') JNull, dict_get pix (ustr ''qrCode'') JNull,
                          dict_get pix (ustr ''text'') JNull] = Some q"
    by blast+
  from normalize_qr [OF h1 h2 h3 h4] create_payment_forwarded [OF assms(1)] assms(2)
  show "snd (create_payment e req) =
          \<lparr>status = 200, body = Json (JObj
             [(ustr ''success'', JBool True),
              (ustr ''transaction'', JObj
                 [(ustr ''id'', dict_get rd (ustr ''id'') JNull),
                  (ustr ''status'', dict_get rd (ustr ''status'') JNull),
                  (ustr ''amount'', dict_get rd (ustr ''amount'') JNull)]),
              (ustr ''pix'', JObj
                 [(ustr ''qr_code'', q), (ustr ''code'', q), (ustr ''copy_paste'', q)])])\<rparr>"
    by (simp add: jsonify_def)
qed

theorem upstream_error_surfaced_witness:
  "length (fst (create_payment (live_env (answer refusal)) (post_json (order (JInt 890))))) = 1 \<and>
   status_code refusal = 422 \<and>
   snd (create_payment (live_env (answer refusal)) (post_json (order (JInt 890)))) =
     \<lparr>status = 422, body = Json (JObj
        [(ustr ''error'', JBool True),
         (ustr ''message'', JStr (ustr ''Erro na API GhostPay: 422'')),
         (ustr ''details'', JStr (ustr ''invalid document''))])\<rparr> \<and>
   status_code both_keys = 201 \<and>
   snd (create_payment (live_env (answer both_keys)) (post_json (order (JInt 890)))) =
     \<lparr>status = 200, body = Json (JObj
        [(ustr ''success'', JBool True),
         (ustr ''transaction'', JObj
            [(ustr ''id'', JStr (ustr ''tx_1'')),
             (ustr ''status'', JStr (ustr ''waiting_payment'')),
             (ustr ''amount'', JInt 890)]),
         (ustr ''pix'', JObj
            [(ustr ''qr_code'', JStr (ustr ''AAA'')), (ustr ''code'', JStr (ustr ''AAA'')),
             (ustr ''copy_paste'', JStr (ustr ''AAA''))])])\<rparr>"
proof -
  let ?req = "post_json (order (JInt 890))"
  let ?e = "live_env (answer refusal)" and ?e' = "live_env (answer both_keys)"
  let ?c = "hd (fst (create_payment ?e ?req))" and ?c' = "hd (fst (create_payment ?e' ?req))"
  let ?pix = "[(ustr ''qrcode'', JStr (ustr ''AAA'')), (ustr ''qrCode'', JStr (ustr ''BBB''))]"
  let ?rd = "[(ustr ''id'', JStr (ustr ''tx_1'')), (ustr ''status'', JStr (ustr ''waiting_payment'')),
              (ustr ''amount'', JInt 890), (ustr ''pix'', JObj ?pix)]"
  have h0: "length (fst (create_payment ?e ?req)) = 1"
    by (simp add: sample_defs handler_defs)
  have h1: "fst (create_payment ?e ?req) = [?c]"
    by (simp add: sample_defs handler_defs)
  have h2: "upstream ?e ?c = Inr refusal"
    by (simp add: live_env_def answer_def)
  have h1': "fst (create_payment ?e' ?req) = [?c']"
    by (simp add: sample_defs handler_defs)
  have h2': "upstream ?e' ?c' = Inr both_keys"
    by (simp add: live_env_def answer_def)
  have s: "status_code refusal = 422" "body_text refusal = ustr ''invalid document''"
    "status_code both_keys = 201" "json_result both_keys = Inr (JObj ?rd)"
    by (simp_all add: refusal_def both_keys_def)
  have t: "str_int 422 = ustr ''422''" "take 200 (ustr ''invalid document'') = ustr ''invalid document''"
    by (simp_all add: str_int_def str_nat.simps ustr_def)
  have p: "dict_get ?rd (ustr ''pix'') (JObj []) = JObj ?pix"
    "dict_get ?rd (ustr ''id'') JNull = JStr (ustr ''tx_1'')"
    "dict_get ?rd (ustr ''status'') JNull = JStr (ustr ''waiting_payment'')"
    "dict_get ?rd (ustr ''amount'') JNull = JInt 890"
    "find truthy [dict_get ?pix (ustr ''qrcode'') JNull, dict_get ?pix (ustr ''qrCode'') JNull,
                  dict_get ?pix (ustr ''text'') JNull] = Some (JStr (ustr ''AAA''))"
    by (simp_all add: dict_get_def)
  from upstream_error_surfaced [OF h1 h2, of ?rd ?pix "JStr (ustr ''AAA'')"]
    upstream_error_surfaced [OF h1' h2', of ?rd ?pix "JStr (ustr ''AAA'')"] h0 s t p
  show ?thesis by simp
qed

section \<open>Looking a payment up\<close>

text \<open>
  C9, as the specification states it: an upstream 200 yields \<^verbatim>\<open>success\<close>. When the
  processor answers 200 with a body that parses to a JSON array, the handler answers
  500 and no \<^verbatim>\<open>success\<close>.
\<close>

theorem check_payment_array_body_counterexample:
  "\<not> test_mode (live_env (answer array_body)) \<and>
   status_code array_body = 200 \<and>
   status (snd (check_payment (live_env (answer array_body)) get_request (ustr ''abc123''))) = 500 \<and>
   field [ustr ''success'']
     (snd (check_payment (live_env (answer array_body)) get_request (ustr ''abc123''))) = None"
  by (simp add: sample_defs check_payment_def check_payment_try_def test_mode_def
      error_response_def jsonify_def field_def)

text \<open>
  C9, amended: with the token configured, a GET of \<^verbatim>\<open>/check-payment/<id>\<close> makes one call
  to the processor. Every status of its answer other than 200 gives 404 with the error
  flag and the message that the transaction was not found; a 200 whose parsed body is a
  JSON object gives \<^verbatim>\<open>success\<close> with the body's \<^verbatim>\<open>status\<close> and \<^verbatim>\<open>paidAt\<close> and the whole
  body as the transaction.
\<close>

theorem check_payment_upstream_status:
  assumes "\<not> test_mode e" and "request_method req = ustr ''GET''"
    and "upstream e (check_payment_call e transaction_id) = Inr r"
  shows "fst (check_payment e req transaction_id) = [check_payment_call e transaction_id] \<and>
         (status_code r \<noteq> 200 \<longrightarrow>
            snd (check_payment e req transaction_id) =
              \<lparr>status = 404, body = Json (JObj
                 [(ustr ''error'', JBool True),
                  (ustr ''message'',
                     JStr (ustr ''Transa'' @ [0xE7, 0xE3] @ ustr ''o n'' @ [0xE3] @
                           ustr ''o encontrada''))])\<rparr>) \<and>
         (status_code r = 200 \<and> json_result r = Inr (JObj d) \<longrightarrow>
            snd (check_payment e req transaction_id) =
              \<lparr>status = 200, body = Json (JObj
                 [(ustr ''success'', JBool True),
                  (ustr ''status'', dict_get d (ustr ''status'') JNull),
                  (ustr ''paid_at'', dict_get d (ustr ''paidAt'') JNull),
                  (ustr ''transaction'', JObj d)])\<rparr>)"
  using assms
  by (auto simp: check_payment_def check_payment_try_def error_response_def jsonify_def
      split: step.splits)

theorem check_payment_upstream_status_witness:
  "\<not> test_mode (live_env (answer unavailable)) \<and>
   status_code unavailable = 503 \<and>
   status (snd (check_payment (live_env (answer unavailable)) get_request (ustr ''abc123''))) = 404 \<and>
   field [ustr ''error'']
     (snd (check_payment (live_env (answer unavailable)) get_request (ustr ''abc123''))) =
     Some (JBool True) \<and>
   status_code found = 200 \<and>
   snd (check_payment (live_env (answer found)) get_request (ustr ''abc123'')) =
     \<lparr>status = 200, body = Json (JObj
        [(ustr ''success'', JBool True),
         (ustr ''status'', JStr (ustr ''paid'')),
         (ustr ''paid_at'', JStr (ustr ''2024-01-01T00:00:00Z'')),
         (ustr ''transaction'', JObj
            [(ustr ''id'', JStr (ustr ''abc123'')), (ustr ''status'', JStr (ustr ''paid'')),
             (ustr ''paidAt'', JStr (ustr ''2024-01-01T00:00:00Z''))])])\<rparr>"
proof -
  let ?e = "live_env (answer unavailable)" and ?e' = "live_env (answer found)"
  let ?d = "[(ustr ''id'', JStr (ustr ''abc123'')), (ustr ''status'', JStr (ustr ''paid'')),
             (ustr ''paidAt'', JStr (ustr ''2024-01-01T00:00:00Z''))]"
  have h1: "\<not> test_mode ?e" "\<not> test_mode ?e'"
    by (simp_all add: test_mode_def live_env_def)
  have h2: "request_method get_request = ustr ''GET''"
    by (simp add: get_request_def)
  have h3: "upstream ?e (check_payment_call ?e (ustr ''abc123'')) = Inr unavailable"
    "upstream ?e' (check_payment_call ?e' (ustr ''abc123'')) = Inr found"
    by (simp_all add: live_env_def answer_def)
  have s: "status_code unavailable = 503" "status_code found = 200"
    "json_result found = Inr (JObj ?d)"
    by (simp_all add: unavailable_def found_def)
  from check_payment_upstream_status [OF h1(1) h2 h3(1), of ?d]
    check_payment_upstream_status [OF h1(2) h2 h3(2), of ?d] h1 s
  show ?thesis by (simp add: dict_get_def field_def)
qed

end
